theory Spec2Isabelle
  imports
    Complex_Main
    "HOL-Library.Char_ord"
    "HOL-Library.List_Lexorder"
    "HOL-Library.Product_Lexorder"
    "HOL-Library.Multiset"
begin

section \<open>Data model\<close>

text \<open>
  The dashboard moves pandas tables around. A table cell that the code treats as a
  number is a rational here, or \<open>Null\<close> for Python's \<open>None\<close> and pandas' NaN (the
  two are not told apart by any code path of the repository). Floating-point rounding is
  abstracted: arithmetic on cells is exact.

  A pandas row and a JSON object are both label-to-value dictionaries; they are
  association lists read with \<open>map_of\<close>, so that the truth value of a dictionary
  (\<open>if d:\<close> holds exactly for a non-empty one) stays computable.
\<close>

datatype cell = Num rat | Null

type_synonym row = "(string \<times> cell) list"
type_synonym table = "row list"

datatype py_error = KeyError | TypeError

text \<open>\<open>d.get(k, default)\<close>; the one-argument form \<open>d.get(k)\<close> is \<open>py_get d k Null\<close>.\<close>

definition py_get :: "row \<Rightarrow> string \<Rightarrow> cell \<Rightarrow> cell" where
  "py_get d k dflt = (case map_of d k of None \<Rightarrow> dflt | Some v \<Rightarrow> v)"

text \<open>The truth value of an optional dictionary: \<open>None\<close> and \<open>{}\<close> are both false.\<close>

definition truthy :: "row option \<Rightarrow> bool" where
  "truthy d = (case d of None \<Rightarrow> False | Some kv \<Rightarrow> kv \<noteq> [])"

text \<open>
  The output rows. The eight columns that both markets share are the parent record; the
  equity rows add the implied volatility and the expiration date, the index rows add the
  change in open interest, \<open>IV\<close>, the underlying value and the timestamp.
\<close>

record option_record =
  Symbol :: string
  Type :: string
  Strike :: cell
  Last_Price :: cell
  Bid :: cell
  Ask :: cell
  Volume :: cell
  Open_Interest :: cell

record us_record = option_record +
  Implied_Volatility :: cell
  Expiration_Date :: string

record nifty_record = option_record +
  Change_in_OI :: cell
  IV :: cell
  Underlying :: cell
  Timestamp :: int

text \<open>
  \<open>df.sort_values(by=['Type', 'Strike'])\<close>: ascending on the type label (string order),
  then on the strike, missing strikes last (pandas' \<open>na_position='last'\<close>); sorting on
  several columns is stable, as \<open>sort_key\<close> is.
\<close>

fun strike_key :: "cell \<Rightarrow> bool \<times> rat" where
  "strike_key (Num x) = (False, x)"
| "strike_key Null = (True, 0)"

definition sort_values :: "('a option_record_scheme) list \<Rightarrow> ('a option_record_scheme) list" where
  "sort_values df = sort_key (\<lambda>r. (Type r, strike_key (Strike r))) df"

section \<open>Equity path (data\_fetchers.py)\<close>

text \<open>
  The dictionary built by \<open>fetch_options_chain\<close> and read by \<open>process_options_data\<close>.
  A field is \<open>None\<close> when its key is absent; for the two tables \<open>None\<close> also stands
  for a key bound to Python's \<open>None\<close>, which the code treats alike.
\<close>

record us_payload =
  symbol :: "string option"
  expiration_date :: "string option"
  calls :: "table option"
  puts :: "table option"
  timestamp :: "int option"




text \<open>One appended record of \<open>process_options_data\<close>.\<close>

definition us_row :: "string \<Rightarrow> string \<Rightarrow> string \<Rightarrow> row \<Rightarrow> us_record" where
  "us_row symb expiration option_type r =
    \<lparr>Symbol = symb,
     Type = (if option_type = ''calls'' then ''Call'' else ''Put''),
     Strike = py_get r ''strike'' (Num 0),
     Last_Price = py_get r ''lastPrice'' (Num 0),
     Bid = py_get r ''bid'' (Num 0),
     Ask = py_get r ''ask'' (Num 0),
     Volume = py_get r ''volume'' (Num 0),
     Open_Interest = py_get r ''openInterest'' (Num 0),
     Implied_Volatility = py_get r ''impliedVolatility'' (Num 0),
     Expiration_Date = expiration\<rparr>"

text \<open>The inner loop over one table; an absent table contributes nothing.\<close>

definition us_rows :: "string \<Rightarrow> string \<Rightarrow> string \<Rightarrow> table option \<Rightarrow> us_record list" where
  "us_rows symb expiration option_type df_slice =
    (case df_slice of None \<Rightarrow> [] | Some t \<Rightarrow> map (us_row symb expiration option_type) t)"

text \<open>\<open>not options_data\<close> on a dictionary: it is empty.\<close>

definition us_payload_empty :: "us_payload \<Rightarrow> bool" where
  "us_payload_empty p \<longleftrightarrow>
     symbol p = None \<and> expiration_date p = None \<and> calls p = None \<and> puts p = None
     \<and> timestamp p = None"

text \<open>
  \<open>process_options_data\<close>. It has no exception handler: indexing an absent
  \<open>'symbol'\<close> or \<open>'expiration_date'\<close> raises \<open>KeyError\<close> (\<open>Inl\<close>). \<open>Inr None\<close> is
  the returned \<open>None\<close>.
\<close>

definition process_options_data :: "us_payload option \<Rightarrow> py_error + us_record list option" where
  "process_options_data options_data =
    (case options_data of
       None \<Rightarrow> Inr None
     | Some p \<Rightarrow>
        if us_payload_empty p then Inr None
        else (case symbol p of
           None \<Rightarrow> Inl KeyError
         | Some symb \<Rightarrow>
            (case expiration_date p of
               None \<Rightarrow> Inl KeyError
             | Some expiration \<Rightarrow>
                (let records = us_rows symb expiration ''calls'' (calls p)
                               @ us_rows symb expiration ''puts'' (puts p)
                 in Inr (Some (if records \<noteq> [] then sort_values records else records))))))"

section \<open>Index path (data\_fetchers.py)\<close>

text \<open>
  A JSON member the code distinguishes three ways: the key is absent, it is bound to
  \<open>null\<close>, or it holds a value.
\<close>

datatype 'a json_field = Missing | JsonNull | Present 'a

text \<open>
  One element of \<open>data['records']['data']\<close>. \<open>item.get\<close> maps an absent key and a
  \<open>null\<close> to \<open>None\<close> alike, so \<open>strikePrice\<close> is a cell and each side is an optional
  dictionary.
\<close>

record strike_entry =
  strikePrice :: cell
  CE :: "row option"
  PE :: "row option"

text \<open>
  The scraped payload: the member \<open>'records'\<close> (an object, of which only the member
  \<open>'data'\<close> is read) and the names of the other top-level keys.
\<close>

record nifty_payload =
  records :: "strike_entry list json_field json_field"
  other_keys :: "string list"

definition nifty_payload_empty :: "nifty_payload \<Rightarrow> bool" where
  "nifty_payload_empty d \<longleftrightarrow> records d = Missing \<and> other_keys d = []"

text \<open>
  \<open>datetime.now()\<close> is read once for every appended record: \<open>clk n\<close> is the reading
  of the \<open>n\<close>-th call of one run, counted from 0.
\<close>

type_synonym clock = "nat \<Rightarrow> int"

text \<open>A run during which the clock does not advance: every reading is \<open>t\<close>.\<close>

definition constant_clock :: "int \<Rightarrow> clock" where
  "constant_clock t n = t"

definition nifty_row :: "string \<Rightarrow> cell \<Rightarrow> row \<Rightarrow> int \<Rightarrow> nifty_record" where
  "nifty_row option_type strike_price d now =
    \<lparr>Symbol = ''NIFTY'',
     Type = option_type,
     Strike = strike_price,
     Last_Price = py_get d ''lastPrice'' Null,
     Bid = py_get d ''bidprice'' Null,
     Ask = py_get d ''askPrice'' Null,
     Volume = py_get d ''totalTradedVolume'' Null,
     Open_Interest = py_get d ''openInterest'' Null,
     Change_in_OI = py_get d ''changeinOpenInterest'' Null,
     IV = py_get d ''impliedVolatility'' Null,
     Underlying = py_get d ''underlyingValue'' Null,
     Timestamp = now\<rparr>"

text \<open>The records one side of one entry appends: one if the side is truthy, else none.\<close>

definition side_rows :: "string \<Rightarrow> cell \<Rightarrow> row option \<Rightarrow> int \<Rightarrow> nifty_record list" where
  "side_rows option_type strike_price side now =
    (case side of
       None \<Rightarrow> []
     | Some d \<Rightarrow> if d \<noteq> [] then [nifty_row option_type strike_price d now] else [])"

text \<open>The loop over the entries; \<open>n\<close> counts the clock readings made so far.\<close>

fun nifty_rows :: "clock \<Rightarrow> nat \<Rightarrow> strike_entry list \<Rightarrow> nifty_record list" where
  "nifty_rows clk n [] = []"
| "nifty_rows clk n (item # items) =
    (let strike_price = strikePrice item;
         ce_rows = side_rows ''CE'' strike_price (CE item) (clk n);
         n1 = n + length ce_rows;
         pe_rows = side_rows ''PE'' strike_price (PE item) (clk n1);
         n2 = n1 + length pe_rows
     in ce_rows @ pe_rows @ nifty_rows clk n2 items)"

text \<open>
  The body of the \<open>try\<close> block up to the table construction. \<open>'data' in None\<close> and
  \<open>for item in None\<close> raise \<open>TypeError\<close>.
\<close>

definition nifty_records :: "clock \<Rightarrow> nifty_payload \<Rightarrow> py_error + nifty_record list" where
  "nifty_records clk d =
    (case records d of
       Missing \<Rightarrow> Inr []
     | JsonNull \<Rightarrow> Inl TypeError
     | Present rd \<Rightarrow>
        (case rd of
           Missing \<Rightarrow> Inr []
         | JsonNull \<Rightarrow> Inl TypeError
         | Present items \<Rightarrow> Inr (nifty_rows clk 0 items)))"

text \<open>
  \<open>process_nifty_options_data\<close>: \<open>None\<close> for a falsy payload and for any exception
  caught by the handler.
\<close>

definition process_nifty_options_data :: "clock \<Rightarrow> nifty_payload option \<Rightarrow> nifty_record list option" where
  "process_nifty_options_data clk data =
    (case data of
       None \<Rightarrow> None
     | Some d \<Rightarrow>
        if nifty_payload_empty d then None
        else (case nifty_records clk d of
           Inl e \<Rightarrow> None
         | Inr rs \<Rightarrow> Some (if rs \<noteq> [] then sort_values rs else rs)))"

section \<open>Aggregation (plotting\_utils.py)\<close>

text \<open>
  The columns aggregated below (\<open>Volume\<close>, \<open>Open_Interest\<close>) are numeric columns
  with missing values, as they are whenever at least one cell of the column holds a
  number. \<open>sum()\<close> skips missing values.
\<close>

fun cell_value :: "cell \<Rightarrow> rat" where
  "cell_value (Num x) = x"
| "cell_value Null = 0"

text \<open>
  \<open>df.groupby(key)[col].sum()\<close>: one entry for every key that occurs, keys ascending;
  rows whose key is missing are dropped.
\<close>

definition groupby_sum ::
    "('r \<Rightarrow> 'k::linorder option) \<Rightarrow> ('r \<Rightarrow> cell) \<Rightarrow> 'r list \<Rightarrow> ('k \<times> rat) list" where
  "groupby_sum key col df =
    map (\<lambda>k. (k, sum_list (map (\<lambda>r. cell_value (col r)) (filter (\<lambda>r. key r = Some k) df))))
        (sort (remdups (List.map_filter key df)))"

fun strike_group :: "cell \<Rightarrow> rat option" where
  "strike_group (Num x) = Some x"
| "strike_group Null = None"

text \<open>\<open>s.nlargest(n)\<close>: the \<open>n\<close> largest values, descending, the first of equal values kept.\<close>

definition nlargest :: "nat \<Rightarrow> ('k \<times> rat) list \<Rightarrow> ('k \<times> rat) list" where
  "nlargest n s = take n (sort_key (\<lambda>kv. - snd kv) s)"

text \<open>\<open>df.groupby('Type')['Open_Interest'].sum()\<close>\<close>

definition oi_summary :: "('a option_record_scheme) list \<Rightarrow> (string \<times> rat) list" where
  "oi_summary df = groupby_sum (\<lambda>r. Some (Type r)) Open_Interest df"

text \<open>\<open>df.groupby('Strike')['Volume'].sum().nlargest(20).reset_index()['Strike']\<close>\<close>

definition top_strikes :: "('a option_record_scheme) list \<Rightarrow> rat list" where
  "top_strikes df = map fst (nlargest 20 (groupby_sum (\<lambda>r. strike_group (Strike r)) Volume df))"

text \<open>\<open>df[df['Strike'].isin(top_strikes_df['Strike'])]\<close>\<close>

definition plot_df :: "('a option_record_scheme) list \<Rightarrow> ('a option_record_scheme) list" where
  "plot_df df =
    filter (\<lambda>r. case Strike r of Num s \<Rightarrow> s \<in> set (top_strikes df) | Null \<Rightarrow> False) df"

text \<open>
  What each figure shows; titles, colours and sizes are left out. \<open>Blank\<close> is the third
  figure left untouched.
\<close>

datatype oi_fig = OIPie "(string \<times> rat) list" | NoOIData
datatype 'r volume_fig = VolumeBars "'r list" "rat list" | NoVolumeData
datatype ratio_fig = RatioBar rat | InsufficientData | Blank

definition oi_figure :: "('a option_record_scheme) list \<Rightarrow> oi_fig" where
  "oi_figure df =
    (let s = oi_summary df
     in if s \<noteq> [] \<and> sum_list (map snd s) > 0 then OIPie s else NoOIData)"

definition volume_figure :: "('a option_record_scheme) list \<Rightarrow> ('a option_record_scheme) volume_fig" where
  "volume_figure df =
    (let p = plot_df df
     in if p \<noteq> [] \<and> sum_list (map (\<lambda>r. cell_value (Volume r)) p) > 0
        then VolumeBars p (sort (remdups (List.map_filter (\<lambda>r. strike_group (Strike r)) p)))
        else NoVolumeData)"

text \<open>The third figure of \<open>generate_nifty_plots\<close>: the put-call ratio.\<close>

definition ratio_figure :: "nifty_record list \<Rightarrow> ratio_fig" where
  "ratio_figure df =
    (if df \<noteq> [] then
       (let pc_ratio = oi_summary df
        in case map_of pc_ratio ''PE'' of
             None \<Rightarrow> InsufficientData
           | Some pe \<Rightarrow>
              (case map_of pc_ratio ''CE'' of
                 None \<Rightarrow> InsufficientData
               | Some ce \<Rightarrow> if ce > 0 then RatioBar (pe / ce) else InsufficientData))
     else Blank)"

text \<open>Both plot builders return \<open>None\<close>s for an absent or empty table.\<close>

definition generate_us_plots ::
    "us_record list option \<Rightarrow> string \<Rightarrow> (oi_fig \<times> us_record volume_fig) option" where
  "generate_us_plots df symb =
    (case df of
       None \<Rightarrow> None
     | Some t \<Rightarrow> if t = [] then None else Some (oi_figure t, volume_figure t))"

definition generate_nifty_plots ::
    "nifty_record list option \<Rightarrow> (oi_fig \<times> nifty_record volume_fig \<times> ratio_fig) option" where
  "generate_nifty_plots df =
    (case df of
       None \<Rightarrow> None
     | Some t \<Rightarrow> if t = [] then None else Some (oi_figure t, volume_figure t, ratio_figure t))"

section \<open>Record keys\<close>

text \<open>
  The combinations the data model calls unique within one fetch: symbol, type, strike and
  expiration date for the equity rows; symbol, type and strike for the index rows, which
  carry no expiration date.
\<close>

definition us_key :: "us_record \<Rightarrow> string \<times> string \<times> cell \<times> string" where
  "us_key r = (Symbol r, Type r, Strike r, Expiration_Date r)"

definition nifty_key :: "nifty_record \<Rightarrow> string \<times> string \<times> cell" where
  "nifty_key r = (Symbol r, Type r, Strike r)"

section \<open>Sorting lemmas\<close>

lemma sort_values_sorted:
  "sorted (map (\<lambda>r. (Type r, strike_key (Strike r))) (sort_values df))"
  by (simp add: sort_values_def)

lemma sort_values_mset: "mset (sort_values df) = mset df"
  by (simp add: sort_values_def)

lemma sort_values_length: "length (sort_values df) = length df"
  by (simp add: sort_values_def)

lemma sort_values_set: "set (sort_values df) = set df"
  by (simp add: sort_values_def)

lemma sort_values_Nil: "sort_values [] = []"
  by (simp add: sort_values_def)

lemma sorted_two_blocks:
  fixes a b :: "'k::linorder"
  assumes "sorted (map f xs)" and "a < b" and "\<forall>x\<in>set xs. f x = a \<or> f x = b"
  shows "xs = filter (\<lambda>x. f x = a) xs @ filter (\<lambda>x. f x = b) xs"
  using assms
proof (induction xs)
  case Nil
  then show ?case by simp
next
  case (Cons x xs)
  then have ih: "xs = filter (\<lambda>x. f x = a) xs @ filter (\<lambda>x. f x = b) xs"
    and le: "\<forall>y\<in>set xs. f x \<le> f y" by auto
  show ?case
  proof (cases "f x = a")
    case True
    with Cons.prems(2) ih show ?thesis by auto
  next
    case False
    with Cons.prems(3) have fb: "f x = b" by auto
    with le Cons.prems(2,3) have "\<forall>y\<in>set xs. f y = b" by fastforce
    then have "filter (\<lambda>x. f x = a) xs = []" "filter (\<lambda>x. f x = b) xs = xs"
      using Cons.prems(2) by (auto simp: filter_empty_conv filter_id_conv)
    with fb Cons.prems(2) show ?thesis by auto
  qed
qed

lemma sorted_fst_block:
  fixes g :: "'r \<Rightarrow> 'k::linorder" and h :: "'r \<Rightarrow> 'v::linorder"
  assumes "sorted (map (\<lambda>r. (g r, h r)) xs)"
  shows "sorted (map g xs)"
  using assms by (induction xs) (auto simp: less_eq_prod_def)

lemma sorted_snd_block:
  fixes g :: "'r \<Rightarrow> 'k::linorder" and h :: "'r \<Rightarrow> 'v::linorder"
  assumes "sorted (map (\<lambda>r. (g r, h r)) xs)" and "\<forall>x\<in>set xs. g x = c"
  shows "sorted (map h xs)"
  using assms by (induction xs) (auto simp: less_eq_prod_def)

lemma sorted_map_filter:
  "sorted (map f xs) \<Longrightarrow> sorted (map f (filter P xs))"
  by (induction xs) auto

lemma strike_key_le_numeric:
  assumes "strike_key a \<le> strike_key b"
  shows "(\<forall>x y. a = Num x \<longrightarrow> b = Num y \<longrightarrow> x \<le> y) \<and> (a = Null \<longrightarrow> b = Null)"
  using assms by (cases a; cases b) auto

lemma sorted_strikes_numeric:
  assumes "sorted (map (\<lambda>r. strike_key (Strike r)) xs)"
  shows "sorted_wrt (\<lambda>a b. (\<forall>x y. Strike a = Num x \<longrightarrow> Strike b = Num y \<longrightarrow> x \<le> y)
                          \<and> (Strike a = Null \<longrightarrow> Strike b = Null)) xs"
proof -
  from assms have "sorted_wrt (\<lambda>a b. strike_key (Strike a) \<le> strike_key (Strike b)) xs"
    by (simp add: sorted_map)
  then show ?thesis
    by (rule sorted_wrt_mono_rel [rotated]) (use strike_key_le_numeric in blast)
qed

section \<open>The equity shaper\<close>

lemma us_rows_type:
  "r \<in> set (us_rows s e ''calls'' t) \<Longrightarrow> Type r = ''Call''"
  "r \<in> set (us_rows s e ''puts'' t) \<Longrightarrow> Type r = ''Put''"
  by (auto simp: us_rows_def us_row_def split: option.splits)


lemma process_options_data_eq:
  assumes "symbol p = Some s" "expiration_date p = Some e" "calls p = Some cs" "puts p = Some ps"
  shows "process_options_data (Some p) =
           Inr (Some (sort_values (map (us_row s e ''calls'') cs @ map (us_row s e ''puts'') ps)))"
  using assms
  by (simp add: process_options_data_def us_payload_empty_def us_rows_def Let_def sort_values_Nil)

text \<open>
  Claim C1. A payload that carries its symbol, its expiration date, a calls table \<open>cs\<close>
  and a puts table \<open>ps\<close> is flattened to \<open>length cs + length ps\<close> records. The
  records tagged \<open>'Call'\<close> are exactly the images of the rows of \<open>cs\<close>, those tagged
  \<open>'Put'\<close> exactly the images of the rows of \<open>ps\<close>. The output is its Call records
  followed by its Put records, and within each group the strikes ascend: a record with
  strike \<open>x\<close> that comes before a record with strike \<open>y\<close> has \<open>x \<le> y\<close>, and a
  missing strike, which has no order, comes after the numbers. Every numeric column of a record
  is the row's value under the source label, and 0 when the row has no such label.
\<close>

theorem process_options_data_flattens:
  assumes "symbol p = Some s" and "expiration_date p = Some e"
    and "calls p = Some cs" and "puts p = Some ps"
  shows "\<exists>out. process_options_data (Some p) = Inr (Some out)
      \<and> length out = length cs + length ps
      \<and> mset (filter (\<lambda>r. Type r = ''Call'') out) = mset (map (us_row s e ''calls'') cs)
      \<and> mset (filter (\<lambda>r. Type r = ''Put'') out) = mset (map (us_row s e ''puts'') ps)
      \<and> out = filter (\<lambda>r. Type r = ''Call'') out @ filter (\<lambda>r. Type r = ''Put'') out
      \<and> sorted_wrt (\<lambda>a b. (\<forall>x y. Strike a = Num x \<longrightarrow> Strike b = Num y \<longrightarrow> x \<le> y)
                               \<and> (Strike a = Null \<longrightarrow> Strike b = Null))
           (filter (\<lambda>r. Type r = ''Call'') out)
      \<and> sorted_wrt (\<lambda>a b. (\<forall>x y. Strike a = Num x \<longrightarrow> Strike b = Num y \<longrightarrow> x \<le> y)
                               \<and> (Strike a = Null \<longrightarrow> Strike b = Null))
           (filter (\<lambda>r. Type r = ''Put'') out)
      \<and> (\<forall>t r. Strike (us_row s e t r) = (case map_of r ''strike'' of None \<Rightarrow> Num 0 | Some v \<Rightarrow> v)
            \<and> Last_Price (us_row s e t r) = (case map_of r ''lastPrice'' of None \<Rightarrow> Num 0 | Some v \<Rightarrow> v)
            \<and> Bid (us_row s e t r) = (case map_of r ''bid'' of None \<Rightarrow> Num 0 | Some v \<Rightarrow> v)
            \<and> Ask (us_row s e t r) = (case map_of r ''ask'' of None \<Rightarrow> Num 0 | Some v \<Rightarrow> v)
            \<and> Volume (us_row s e t r) = (case map_of r ''volume'' of None \<Rightarrow> Num 0 | Some v \<Rightarrow> v)
            \<and> Open_Interest (us_row s e t r)
                = (case map_of r ''openInterest'' of None \<Rightarrow> Num 0 | Some v \<Rightarrow> v)
            \<and> Implied_Volatility (us_row s e t r)
                = (case map_of r ''impliedVolatility'' of None \<Rightarrow> Num 0 | Some v \<Rightarrow> v))"
proof -
  define cr where "cr = map (us_row s e ''calls'') cs"
  define pr where "pr = map (us_row s e ''puts'') ps"
  define out where "out = sort_values (cr @ pr)"
  have res: "process_options_data (Some p) = Inr (Some out)"
    using process_options_data_eq [OF assms] by (simp add: out_def cr_def pr_def)
  have len: "length out = length cs + length ps"
    by (simp add: out_def sort_values_length cr_def pr_def)
  have tc: "\<forall>r\<in>set cr. Type r = ''Call''" and tp: "\<forall>r\<in>set pr. Type r = ''Put''"
    by (auto simp: cr_def pr_def us_row_def)
  have ms: "mset out = mset cr + mset pr"
    by (simp add: out_def sort_values_mset)
  have fc: "filter (\<lambda>r. Type r = ''Call'') (cr @ pr) = cr"
    using tc tp by (auto simp: filter_id_conv filter_empty_conv)
  have fp: "filter (\<lambda>r. Type r = ''Put'') (cr @ pr) = pr"
    using tc tp by (auto simp: filter_id_conv filter_empty_conv)
  have mc: "mset (filter (\<lambda>r. Type r = ''Call'') out) = mset cr"
  proof -
    have "mset (filter (\<lambda>r. Type r = ''Call'') out) = mset (filter (\<lambda>r. Type r = ''Call'') (cr @ pr))"
      unfolding mset_filter out_def sort_values_mset ..
    then show ?thesis by (simp only: fc)
  qed
  have mp: "mset (filter (\<lambda>r. Type r = ''Put'') out) = mset pr"
  proof -
    have "mset (filter (\<lambda>r. Type r = ''Put'') out) = mset (filter (\<lambda>r. Type r = ''Put'') (cr @ pr))"
      unfolding mset_filter out_def sort_values_mset ..
    then show ?thesis by (simp only: fp)
  qed
  have srt: "sorted (map (\<lambda>r. (Type r, strike_key (Strike r))) out)"
    by (simp add: out_def sort_values_sorted)
  have types: "\<forall>r\<in>set out. Type r = ''Call'' \<or> Type r = ''Put''"
    using tc tp by (auto simp: out_def sort_values_set)
  have blocks: "out = filter (\<lambda>r. Type r = ''Call'') out @ filter (\<lambda>r. Type r = ''Put'') out"
    by (rule sorted_two_blocks [OF sorted_fst_block [OF srt] _ types]) simp
  have sc: "sorted (map (\<lambda>r. strike_key (Strike r)) (filter (\<lambda>r. Type r = ''Call'') out))"
    by (rule sorted_snd_block [OF sorted_map_filter [OF srt], of _ "''Call''"]) simp
  have sp: "sorted (map (\<lambda>r. strike_key (Strike r)) (filter (\<lambda>r. Type r = ''Put'') out))"
    by (rule sorted_snd_block [OF sorted_map_filter [OF srt], of _ "''Put''"]) simp
  note nc = sorted_strikes_numeric [OF sc]
  note np = sorted_strikes_numeric [OF sp]
  have dflt: "\<forall>t r. Strike (us_row s e t r) = (case map_of r ''strike'' of None \<Rightarrow> Num 0 | Some v \<Rightarrow> v)
            \<and> Last_Price (us_row s e t r) = (case map_of r ''lastPrice'' of None \<Rightarrow> Num 0 | Some v \<Rightarrow> v)
            \<and> Bid (us_row s e t r) = (case map_of r ''bid'' of None \<Rightarrow> Num 0 | Some v \<Rightarrow> v)
            \<and> Ask (us_row s e t r) = (case map_of r ''ask'' of None \<Rightarrow> Num 0 | Some v \<Rightarrow> v)
            \<and> Volume (us_row s e t r) = (case map_of r ''volume'' of None \<Rightarrow> Num 0 | Some v \<Rightarrow> v)
            \<and> Open_Interest (us_row s e t r)
                = (case map_of r ''openInterest'' of None \<Rightarrow> Num 0 | Some v \<Rightarrow> v)
            \<and> Implied_Volatility (us_row s e t r)
                = (case map_of r ''impliedVolatility'' of None \<Rightarrow> Num 0 | Some v \<Rightarrow> v)"
    by (simp add: us_row_def py_get_def)
  from res len mc mp blocks nc np dflt show ?thesis
    unfolding cr_def pr_def by blast
qed

theorem process_options_data_flattens_witness:
  "symbol \<lparr>symbol = Some ''AAPL'', expiration_date = Some ''2024-01-19'',
        calls = Some [[(''strike'', Num 150)], [(''strike'', Num 100), (''volume'', Num 7)]],
        puts = Some [[(''strike'', Num 120)]], timestamp = Some 0\<rparr> = Some ''AAPL''
   \<and> expiration_date \<lparr>symbol = Some ''AAPL'', expiration_date = Some ''2024-01-19'',
        calls = Some [[(''strike'', Num 150)], [(''strike'', Num 100), (''volume'', Num 7)]],
        puts = Some [[(''strike'', Num 120)]], timestamp = Some 0\<rparr> = Some ''2024-01-19''
   \<and> calls \<lparr>symbol = Some ''AAPL'', expiration_date = Some ''2024-01-19'',
        calls = Some [[(''strike'', Num 150)], [(''strike'', Num 100), (''volume'', Num 7)]],
        puts = Some [[(''strike'', Num 120)]], timestamp = Some 0\<rparr>
       = Some [[(''strike'', Num 150)], [(''strike'', Num 100), (''volume'', Num 7)]]
   \<and> puts \<lparr>symbol = Some ''AAPL'', expiration_date = Some ''2024-01-19'',
        calls = Some [[(''strike'', Num 150)], [(''strike'', Num 100), (''volume'', Num 7)]],
        puts = Some [[(''strike'', Num 120)]], timestamp = Some 0\<rparr> = Some [[(''strike'', Num 120)]]
   \<and> process_options_data (Some \<lparr>symbol = Some ''AAPL'', expiration_date = Some ''2024-01-19'',
        calls = Some [[(''strike'', Num 150)], [(''strike'', Num 100), (''volume'', Num 7)]],
        puts = Some [[(''strike'', Num 120)]], timestamp = Some 0\<rparr>)
       = Inr (Some [us_row ''AAPL'' ''2024-01-19'' ''calls'' [(''strike'', Num 100), (''volume'', Num 7)],
         us_row ''AAPL'' ''2024-01-19'' ''calls'' [(''strike'', Num 150)],
         us_row ''AAPL'' ''2024-01-19'' ''puts'' [(''strike'', Num 120)]])
   \<and> Strike (us_row ''AAPL'' ''2024-01-19'' ''calls'' [(''strike'', Num 100), (''volume'', Num 7)])
       = Num 100
   \<and> Strike (us_row ''AAPL'' ''2024-01-19'' ''calls'' [(''strike'', Num 150)]) = Num 150
   \<and> (100 :: rat) \<le> 150
   \<and> Volume (us_row ''AAPL'' ''2024-01-19'' ''calls'' [(''strike'', Num 150)]) = Num 0"
proof -
  let ?p = "\<lparr>symbol = Some ''AAPL'', expiration_date = Some ''2024-01-19'',
        calls = Some [[(''strike'', Num 150)], [(''strike'', Num 100), (''volume'', Num 7)]],
        puts = Some [[(''strike'', Num 120)]], timestamp = Some 0\<rparr>"
  let ?lo = "us_row ''AAPL'' ''2024-01-19'' ''calls'' [(''strike'', Num 100), (''volume'', Num 7)]"
  let ?hi = "us_row ''AAPL'' ''2024-01-19'' ''calls'' [(''strike'', Num 150)]"
  let ?put = "us_row ''AAPL'' ''2024-01-19'' ''puts'' [(''strike'', Num 120)]"
  have run: "process_options_data (Some ?p) = Inr (Some [?lo, ?hi, ?put])"
    by (simp add: process_options_data_def us_payload_empty_def us_rows_def us_row_def
        py_get_def sort_values_def Let_def)
  have types: "filter (\<lambda>r. Type r = ''Call'') [?lo, ?hi, ?put] = [?lo, ?hi]"
    by (simp add: us_row_def)
  have lo: "Strike ?lo = Num 100" and hi: "Strike ?hi = Num 150"
    and vol: "Volume ?hi = Num 0"
    by (simp_all add: us_row_def py_get_def)
  from process_options_data_flattens
    [of ?p "''AAPL''" "''2024-01-19''"
        "[[(''strike'', Num 150)], [(''strike'', Num 100), (''volume'', Num 7)]]"
        "[[(''strike'', Num 120)]]"]
  obtain out where o: "process_options_data (Some ?p) = Inr (Some out)"
    and srt: "sorted_wrt (\<lambda>a b. (\<forall>x y. Strike a = Num x \<longrightarrow> Strike b = Num y \<longrightarrow> x \<le> y)
                               \<and> (Strike a = Null \<longrightarrow> Strike b = Null))
           (filter (\<lambda>r. Type r = ''Call'') out)"
    by auto
  from o run have "out = [?lo, ?hi, ?put]" by simp
  with srt types have "\<forall>x y. Strike ?lo = Num x \<longrightarrow> Strike ?hi = Num y \<longrightarrow> x \<le> y"
    by simp
  with lo hi have le: "(100 :: rat) \<le> 150" by blast
  from run lo hi le vol show ?thesis by simp
qed

section \<open>Absent and empty payloads\<close>

text \<open>
  Claim C10. Both shapers return \<open>None\<close> for an absent payload and for an empty
  dictionary, and an empty table (not \<open>None\<close>) for a payload that is present and holds
  no option rows: empty calls and puts tables, or an empty \<open>data\<close> list.
\<close>

theorem shapers_null_versus_empty:
  "process_options_data None = Inr None
   \<and> process_options_data (Some \<lparr>symbol = None, expiration_date = None, calls = None,
                                  puts = None, timestamp = None\<rparr>) = Inr None
   \<and> process_options_data (Some \<lparr>symbol = Some s, expiration_date = Some e, calls = Some [],
                                  puts = Some [], timestamp = ts\<rparr>) = Inr (Some [])
   \<and> process_nifty_options_data clk None = None
   \<and> process_nifty_options_data clk (Some \<lparr>records = Missing, other_keys = []\<rparr>) = None
   \<and> process_nifty_options_data clk (Some \<lparr>records = Present (Present []), other_keys = ks\<rparr>)
       = Some []"
  by (simp add: process_options_data_def us_payload_empty_def us_rows_def
      process_nifty_options_data_def nifty_payload_empty_def nifty_records_def)

section \<open>The index shaper\<close>

lemma side_rows_length:
  "length (side_rows t sp side now) = (if truthy side then 1 else 0)"
  by (simp add: side_rows_def truthy_def split: option.splits)

lemma side_rows_falsy: "\<not> truthy side \<Longrightarrow> side_rows t sp side now = []"
  by (simp add: side_rows_def truthy_def split: option.splits)

lemma side_rows_truthy:
  "truthy side \<Longrightarrow> \<exists>d. side = Some d \<and> d \<noteq> [] \<and> side_rows t sp side now = [nifty_row t sp d now]"
  by (simp add: side_rows_def truthy_def split: option.splits)

lemma nifty_rows_length:
  "length (nifty_rows clk n items)
     = sum_list (map (\<lambda>it. (if truthy (CE it) then 1 else 0) + (if truthy (PE it) then 1 else 0)) items)"
  by (induction items arbitrary: n) (simp_all add: Let_def side_rows_length)

lemma nifty_rows_append:
  "nifty_rows clk n (xs @ ys)
     = nifty_rows clk n xs @ nifty_rows clk (n + length (nifty_rows clk n xs)) ys"
  by (induction xs arbitrary: n) (simp_all add: Let_def add.assoc)

lemma process_nifty_options_data_eq:
  assumes "records d = Present (Present items)"
  shows "process_nifty_options_data clk (Some d) = Some (sort_values (nifty_rows clk 0 items))"
  using assms
  by (simp add: process_nifty_options_data_def nifty_payload_empty_def nifty_records_def
      sort_values_Nil)

text \<open>
  Claim C2. In a payload whose \<open>data\<close> list is \<open>pre @ item # post\<close>, every entry yields
  one record for each of its two sides that is present (a side the code's test
  \<open>if ce_data:\<close> accepts: bound to a non-empty object), hence between zero and two. An
  entry with a CE side and no PE side contributes exactly one record, tagged \<open>'CE'\<close>, at
  the entry's strike: the output is that record together with the records of the other
  entries. A numeric column of a record is the side's value under the source label, and
  \<open>Null\<close>, not 0, when the side has no such label.
\<close>

theorem process_nifty_options_data_entries:
  assumes "records d = Present (Present (pre @ item # post))"
  shows "\<exists>out. process_nifty_options_data clk (Some d) = Some out
      \<and> length out
          = sum_list (map (\<lambda>it. (if truthy (CE it) then 1 else 0) + (if truthy (PE it) then 1 else 0))
                       (pre @ item # post))
      \<and> length (nifty_rows clk n [item]) \<le> 2
      \<and> (truthy (CE item) \<and> \<not> truthy (PE item) \<longrightarrow>
           (\<exists>ce k. CE item = Some ce \<and> k = length (nifty_rows clk 0 pre)
              \<and> Type (nifty_row ''CE'' (strikePrice item) ce (clk k)) = ''CE''
              \<and> Strike (nifty_row ''CE'' (strikePrice item) ce (clk k)) = strikePrice item
              \<and> mset out = mset (nifty_rows clk 0 pre)
                           + {# nifty_row ''CE'' (strikePrice item) ce (clk k) #}
                           + mset (nifty_rows clk (Suc k) post)))
      \<and> (\<forall>t sp side now.
            Open_Interest (nifty_row t sp side now)
              = (case map_of side ''openInterest'' of None \<Rightarrow> Null | Some v \<Rightarrow> v)
          \<and> Change_in_OI (nifty_row t sp side now)
              = (case map_of side ''changeinOpenInterest'' of None \<Rightarrow> Null | Some v \<Rightarrow> v)
          \<and> Volume (nifty_row t sp side now)
              = (case map_of side ''totalTradedVolume'' of None \<Rightarrow> Null | Some v \<Rightarrow> v)
          \<and> IV (nifty_row t sp side now)
              = (case map_of side ''impliedVolatility'' of None \<Rightarrow> Null | Some v \<Rightarrow> v)
          \<and> Last_Price (nifty_row t sp side now)
              = (case map_of side ''lastPrice'' of None \<Rightarrow> Null | Some v \<Rightarrow> v)
          \<and> Underlying (nifty_row t sp side now)
              = (case map_of side ''underlyingValue'' of None \<Rightarrow> Null | Some v \<Rightarrow> v)
          \<and> Bid (nifty_row t sp side now)
              = (case map_of side ''bidprice'' of None \<Rightarrow> Null | Some v \<Rightarrow> v)
          \<and> Ask (nifty_row t sp side now)
              = (case map_of side ''askPrice'' of None \<Rightarrow> Null | Some v \<Rightarrow> v))"
proof -
  define out where "out = sort_values (nifty_rows clk 0 (pre @ item # post))"
  define k where "k = length (nifty_rows clk 0 pre)"
  have res: "process_nifty_options_data clk (Some d) = Some out"
    using process_nifty_options_data_eq [OF assms] by (simp add: out_def)
  have len: "length out
      = sum_list (map (\<lambda>it. (if truthy (CE it) then 1 else 0) + (if truthy (PE it) then 1 else 0))
                   (pre @ item # post))"
    unfolding out_def sort_values_length by (rule nifty_rows_length)
  have two: "length (nifty_rows clk n [item]) \<le> 2"
    unfolding nifty_rows_length by simp
  have split: "nifty_rows clk 0 (pre @ item # post)
      = nifty_rows clk 0 pre @ nifty_rows clk k (item # post)"
    by (simp add: nifty_rows_append k_def)
  have one: "\<exists>ce. CE item = Some ce
              \<and> Type (nifty_row ''CE'' (strikePrice item) ce (clk k)) = ''CE''
              \<and> Strike (nifty_row ''CE'' (strikePrice item) ce (clk k)) = strikePrice item
              \<and> mset out = mset (nifty_rows clk 0 pre)
                           + {# nifty_row ''CE'' (strikePrice item) ce (clk k) #}
                           + mset (nifty_rows clk (Suc k) post)"
    if ce: "truthy (CE item)" and pe: "\<not> truthy (PE item)"
  proof -
    from side_rows_truthy [OF ce, of "''CE''" "strikePrice item" "clk k"]
    obtain c where c: "CE item = Some c"
      and cr: "side_rows ''CE'' (strikePrice item) (CE item) (clk k)
                 = [nifty_row ''CE'' (strikePrice item) c (clk k)]"
      by blast
    have "nifty_rows clk k (item # post)
            = nifty_row ''CE'' (strikePrice item) c (clk k) # nifty_rows clk (Suc k) post"
      by (simp add: Let_def cr side_rows_falsy [OF pe])
    then have "mset out = mset (nifty_rows clk 0 pre)
                           + {# nifty_row ''CE'' (strikePrice item) c (clk k) #}
                           + mset (nifty_rows clk (Suc k) post)"
      by (simp add: out_def sort_values_mset split)
    with c show ?thesis by (simp add: nifty_row_def)
  qed
  have fields: "\<forall>t sp side now.
            Open_Interest (nifty_row t sp side now)
              = (case map_of side ''openInterest'' of None \<Rightarrow> Null | Some v \<Rightarrow> v)
          \<and> Change_in_OI (nifty_row t sp side now)
              = (case map_of side ''changeinOpenInterest'' of None \<Rightarrow> Null | Some v \<Rightarrow> v)
          \<and> Volume (nifty_row t sp side now)
              = (case map_of side ''totalTradedVolume'' of None \<Rightarrow> Null | Some v \<Rightarrow> v)
          \<and> IV (nifty_row t sp side now)
              = (case map_of side ''impliedVolatility'' of None \<Rightarrow> Null | Some v \<Rightarrow> v)
          \<and> Last_Price (nifty_row t sp side now)
              = (case map_of side ''lastPrice'' of None \<Rightarrow> Null | Some v \<Rightarrow> v)
          \<and> Underlying (nifty_row t sp side now)
              = (case map_of side ''underlyingValue'' of None \<Rightarrow> Null | Some v \<Rightarrow> v)
          \<and> Bid (nifty_row t sp side now)
              = (case map_of side ''bidprice'' of None \<Rightarrow> Null | Some v \<Rightarrow> v)
          \<and> Ask (nifty_row t sp side now)
              = (case map_of side ''askPrice'' of None \<Rightarrow> Null | Some v \<Rightarrow> v)"
    by (simp add: nifty_row_def py_get_def)
  from res len two one fields show ?thesis
    unfolding k_def by blast
qed

theorem process_nifty_options_data_entries_witness:
  "records \<lparr>records = Present (Present ([] @ \<lparr>strikePrice = Num 100,
        CE = Some [(''openInterest'', Num 5)], PE = None\<rparr> # [])), other_keys = []\<rparr>
     = Present (Present ([] @ \<lparr>strikePrice = Num 100,
        CE = Some [(''openInterest'', Num 5)], PE = None\<rparr> # []))
   \<and> truthy (CE \<lparr>strikePrice = Num 100, CE = Some [(''openInterest'', Num 5)], PE = None\<rparr>)
   \<and> \<not> truthy (PE \<lparr>strikePrice = Num 100, CE = Some [(''openInterest'', Num 5)], PE = None\<rparr>)
   \<and> (\<exists>out. process_nifty_options_data (\<lambda>n. 0)
          (Some \<lparr>records = Present (Present ([] @ \<lparr>strikePrice = Num 100,
             CE = Some [(''openInterest'', Num 5)], PE = None\<rparr> # [])), other_keys = []\<rparr>)
          = Some out
        \<and> length out = 1
        \<and> mset out = {# nifty_row ''CE'' (Num 100) [(''openInterest'', Num 5)] 0 #})"
proof -
  have h: "records \<lparr>records = Present (Present ([] @ \<lparr>strikePrice = Num 100,
        CE = Some [(''openInterest'', Num 5)], PE = None\<rparr> # [])), other_keys = []\<rparr>
     = Present (Present ([] @ \<lparr>strikePrice = Num 100,
        CE = Some [(''openInterest'', Num 5)], PE = None\<rparr> # []))"
    by simp
  have t: "truthy (CE \<lparr>strikePrice = Num 100, CE = Some [(''openInterest'', Num 5)], PE = None\<rparr>)"
    "\<not> truthy (PE \<lparr>strikePrice = Num 100, CE = Some [(''openInterest'', Num 5)], PE = None\<rparr>)"
    by (simp_all add: truthy_def)
  from process_nifty_options_data_entries [OF h, of "\<lambda>n. 0" 0]
  obtain out where o: "process_nifty_options_data (\<lambda>n. 0)
          (Some \<lparr>records = Present (Present ([] @ \<lparr>strikePrice = Num 100,
             CE = Some [(''openInterest'', Num 5)], PE = None\<rparr> # [])), other_keys = []\<rparr>)
          = Some out"
    and l: "length out = 1"
    and m: "mset out = {# nifty_row ''CE'' (Num 100) [(''openInterest'', Num 5)] 0 #}"
    using t by auto
  from h t o l m show ?thesis by blast
qed

section \<open>Determinism and the clock\<close>

lemma insort_key_map_commute:
  assumes "\<And>x. k (f x) = k x"
  shows "map f (insort_key k x xs) = insort_key k (f x) (map f xs)"
  by (induction xs) (simp_all add: assms)

lemma sort_key_map_commute:
  assumes "\<And>x. k (f x) = k x"
  shows "map f (sort_key k xs) = sort_key k (map f xs)"
  by (induction xs) (simp_all add: insort_key_map_commute [of k f, OF assms])

lemma sort_values_erase:
  "map (\<lambda>r. r\<lparr>Timestamp := 0\<rparr>) (sort_values (rs :: nifty_record list))
     = sort_values (map (\<lambda>r. r\<lparr>Timestamp := 0\<rparr>) rs)"
  unfolding sort_values_def by (rule sort_key_map_commute) simp

lemma side_rows_erase:
  "map (\<lambda>r. r\<lparr>Timestamp := 0\<rparr>) (side_rows t sp side now) = side_rows t sp side 0"
  by (simp add: side_rows_def nifty_row_def split: option.splits)

lemma nifty_rows_erase:
  "map (\<lambda>r. r\<lparr>Timestamp := 0\<rparr>) (nifty_rows clk n items)
     = concat (map (\<lambda>it. side_rows ''CE'' (strikePrice it) (CE it) 0
                          @ side_rows ''PE'' (strikePrice it) (PE it) 0) items)"
  by (induction items arbitrary: n) (simp_all add: Let_def side_rows_erase)

lemma process_nifty_options_data_cases:
  "process_nifty_options_data clk (Some d) =
     (if nifty_payload_empty d then None
      else (case records d of
              Missing \<Rightarrow> Some []
            | JsonNull \<Rightarrow> None
            | Present rd \<Rightarrow>
               (case rd of
                  Missing \<Rightarrow> Some []
                | JsonNull \<Rightarrow> None
                | Present items \<Rightarrow> Some (sort_values (nifty_rows clk 0 items)))))"
  by (simp add: process_nifty_options_data_def nifty_records_def sort_values_Nil
      split: json_field.splits)

lemma process_nifty_options_data_erase:
  "map_option (map (\<lambda>r. r\<lparr>Timestamp := 0\<rparr>)) (process_nifty_options_data clk data)
     = (case data of
          None \<Rightarrow> None
        | Some d \<Rightarrow>
           if nifty_payload_empty d then None
           else (case records d of
              Missing \<Rightarrow> Some []
            | JsonNull \<Rightarrow> None
            | Present rd \<Rightarrow>
               (case rd of
                  Missing \<Rightarrow> Some []
                | JsonNull \<Rightarrow> None
                | Present items \<Rightarrow>
                   Some (sort_values (concat (map (\<lambda>it.
                      side_rows ''CE'' (strikePrice it) (CE it) 0
                      @ side_rows ''PE'' (strikePrice it) (PE it) 0) items))))))"
proof (cases data)
  case None
  then show ?thesis by (simp add: process_nifty_options_data_def)
next
  case (Some d)
  then show ?thesis
    by (simp add: process_nifty_options_data_cases sort_values_erase nifty_rows_erase
        split: json_field.splits)
qed

text \<open>
  Claim C5, as stated, fails on the index shaper: it stamps every record with
  \<open>datetime.now()\<close>, so two runs on one payload at different times differ.
\<close>

theorem nifty_runs_differ:
  "process_nifty_options_data (constant_clock 0)
     (Some \<lparr>records = Present (Present [\<lparr>strikePrice = Num 100,
        CE = Some [(''openInterest'', Num 5)], PE = None\<rparr>]), other_keys = []\<rparr>)
   \<noteq> process_nifty_options_data (constant_clock 1)
     (Some \<lparr>records = Present (Present [\<lparr>strikePrice = Num 100,
        CE = Some [(''openInterest'', Num 5)], PE = None\<rparr>]), other_keys = []\<rparr>)"
  by (simp add: process_nifty_options_data_def nifty_payload_empty_def nifty_records_def
      side_rows_def nifty_row_def sort_values_def Let_def constant_clock_def)

text \<open>
  Claim C5, amended. The equity shaper reads nothing but its payload. Two runs of the
  index shaper on one payload, whatever the clock, return \<open>None\<close> together and
  otherwise agree on every column but \<open>Timestamp\<close>. When the \<open>data\<close> list is there,
  the index shaper returns a table, and that table, timestamps apart, holds for every
  entry the record of its CE side and the record of its PE side, each one if and only if
  that side is present: an absent side removes its own record and nothing else. Likewise
  the equity shaper, given its symbol and expiration date, returns the rows of whichever
  of the two tables are there, and an absent table contributes none.
\<close>

theorem shapers_deterministic_up_to_timestamp:
  "map_option (map (\<lambda>r. r\<lparr>Timestamp := 0\<rparr>)) (process_nifty_options_data clk1 data)
     = map_option (map (\<lambda>r. r\<lparr>Timestamp := 0\<rparr>)) (process_nifty_options_data clk2 data)
   \<and> (process_nifty_options_data clk1 data = None
        \<longleftrightarrow> process_nifty_options_data clk2 data = None)
   \<and> (records d = Present (Present items) \<longrightarrow>
        (\<exists>out. process_nifty_options_data clk1 (Some d) = Some out
           \<and> mset (map (\<lambda>r. r\<lparr>Timestamp := 0\<rparr>) out)
               = mset (concat (map (\<lambda>it. side_rows ''CE'' (strikePrice it) (CE it) 0
                                          @ side_rows ''PE'' (strikePrice it) (PE it) 0) items))))
   \<and> side_rows t sp None now = []
   \<and> (symbol p = Some s \<and> expiration_date p = Some e \<longrightarrow>
        process_options_data (Some p)
          = Inr (Some (sort_values (us_rows s e ''calls'' (calls p)
                                    @ us_rows s e ''puts'' (puts p)))))
   \<and> us_rows s e ot None = []"
proof -
  have a: "map_option (map (\<lambda>r. r\<lparr>Timestamp := 0\<rparr>)) (process_nifty_options_data clk1 data)
     = map_option (map (\<lambda>r. r\<lparr>Timestamp := 0\<rparr>)) (process_nifty_options_data clk2 data)"
    by (simp only: process_nifty_options_data_erase)
  have b: "process_nifty_options_data clk1 data = None
        \<longleftrightarrow> process_nifty_options_data clk2 data = None"
    using a by (metis map_option_is_None)
  have c: "\<exists>out. process_nifty_options_data clk1 (Some d) = Some out
           \<and> mset (map (\<lambda>r. r\<lparr>Timestamp := 0\<rparr>) out)
               = mset (concat (map (\<lambda>it. side_rows ''CE'' (strikePrice it) (CE it) 0
                                          @ side_rows ''PE'' (strikePrice it) (PE it) 0) items))"
    if r: "records d = Present (Present items)"
  proof -
    have "mset (map (\<lambda>r. r\<lparr>Timestamp := 0\<rparr>) (sort_values (nifty_rows clk1 0 items)))
            = mset (concat (map (\<lambda>it. side_rows ''CE'' (strikePrice it) (CE it) 0
                                          @ side_rows ''PE'' (strikePrice it) (PE it) 0) items))"
      by (simp only: sort_values_erase sort_values_mset nifty_rows_erase)
    with process_nifty_options_data_eq [OF r, of clk1] show ?thesis by blast
  qed
  have d: "side_rows t sp None now = []"
    by (simp add: side_rows_def)
  have e: "process_options_data (Some p)
          = Inr (Some (sort_values (us_rows s e ''calls'' (calls p)
                                    @ us_rows s e ''puts'' (puts p))))"
    if "symbol p = Some s" "expiration_date p = Some e"
    using that by (simp add: process_options_data_def us_payload_empty_def Let_def sort_values_Nil)
  have f: "us_rows s e ot None = []"
    by (simp add: us_rows_def)
  from a b c d e f show ?thesis by blast
qed

theorem shapers_deterministic_up_to_timestamp_witness:
  "records \<lparr>records = Present (Present [\<lparr>strikePrice = Num 100, CE = None,
        PE = Some [(''openInterest'', Num 7)]\<rparr>]), other_keys = []\<rparr>
     = Present (Present [\<lparr>strikePrice = Num 100, CE = None,
        PE = Some [(''openInterest'', Num 7)]\<rparr>])
   \<and> (\<exists>out. process_nifty_options_data (\<lambda>n. 3)
          (Some \<lparr>records = Present (Present [\<lparr>strikePrice = Num 100, CE = None,
             PE = Some [(''openInterest'', Num 7)]\<rparr>]), other_keys = []\<rparr>) = Some out
        \<and> mset (map (\<lambda>r. r\<lparr>Timestamp := 0\<rparr>) out)
            = {# nifty_row ''PE'' (Num 100) [(''openInterest'', Num 7)] 0 #})
   \<and> symbol \<lparr>symbol = Some ''SPY'', expiration_date = Some ''2024-01-19'', calls = None,
              puts = Some [[(''strike'', Num 120)]], timestamp = None\<rparr> = Some ''SPY''
   \<and> expiration_date \<lparr>symbol = Some ''SPY'', expiration_date = Some ''2024-01-19'',
              calls = None, puts = Some [[(''strike'', Num 120)]], timestamp = None\<rparr>
       = Some ''2024-01-19''
   \<and> process_options_data (Some \<lparr>symbol = Some ''SPY'', expiration_date = Some ''2024-01-19'',
              calls = None, puts = Some [[(''strike'', Num 120)]], timestamp = None\<rparr>)
       = Inr (Some [us_row ''SPY'' ''2024-01-19'' ''puts'' [(''strike'', Num 120)]])"
  using shapers_deterministic_up_to_timestamp
    [of "\<lambda>n. 3" None "\<lambda>n. 4"
        "\<lparr>records = Present (Present [\<lparr>strikePrice = Num 100, CE = None,
        PE = Some [(''openInterest'', Num 7)]\<rparr>]), other_keys = []\<rparr>"
        "[\<lparr>strikePrice = Num 100, CE = None, PE = Some [(''openInterest'', Num 7)]\<rparr>]"
        "''PE''" Null 0
        "\<lparr>symbol = Some ''SPY'', expiration_date = Some ''2024-01-19'', calls = None,
              puts = Some [[(''strike'', Num 120)]], timestamp = None\<rparr>"
        "''SPY''" "''2024-01-19''" "''calls''"]
  by (simp add: side_rows_def us_rows_def sort_values_def)

section \<open>Uniqueness of the record keys\<close>

lemma distinct_map_sort_values:
  "distinct (map k (sort_values df)) \<longleftrightarrow> distinct (map k df)"
proof -
  have "mset (map k (sort_values df)) = mset (map k df)"
    by (simp add: sort_values_mset)
  then show ?thesis by (rule mset_eq_imp_distinct_iff)
qed

lemma side_rows_key:
  "r \<in> set (side_rows t sp side now) \<Longrightarrow> Symbol r = ''NIFTY'' \<and> Type r = t \<and> Strike r = sp"
  by (auto simp: side_rows_def nifty_row_def split: option.splits if_splits)

lemma nifty_rows_strike:
  "r \<in> set (nifty_rows clk n items) \<Longrightarrow> Strike r \<in> strikePrice ` set items"
proof (induction items arbitrary: n)
  case Nil
  then show ?case by simp
next
  case (Cons item items)
  then show ?case
    by (auto simp: Let_def dest: side_rows_key)
qed

lemma side_rows_distinct:
  "distinct (map k (side_rows t sp side now))"
  by (simp add: side_rows_def split: option.splits)

lemma nifty_rows_distinct:
  assumes "distinct (map strikePrice items)"
  shows "distinct (map nifty_key (nifty_rows clk n items))"
  using assms
proof (induction items arbitrary: n)
  case Nil
  then show ?case by simp
next
  case (Cons item items)
  let ?k = nifty_key
  let ?ce = "side_rows ''CE'' (strikePrice item) (CE item) (clk n)"
  let ?n1 = "n + length ?ce"
  let ?pe = "side_rows ''PE'' (strikePrice item) (PE item) (clk ?n1)"
  let ?rest = "nifty_rows clk (?n1 + length ?pe) items"
  have rows: "nifty_rows clk n (item # items) = ?ce @ ?pe @ ?rest"
    by (simp add: Let_def)
  from Cons.prems have nin: "strikePrice item \<notin> strikePrice ` set items"
    and d: "distinct (map strikePrice items)" by simp_all
  from nin have fresh: "\<forall>x\<in>set items. strikePrice x \<noteq> strikePrice item"
    by (metis imageI)
  have rest: "distinct (map ?k ?rest)" by (rule Cons.IH [OF d])
  have cp: "set (map ?k ?ce) \<inter> set (map ?k ?pe) = {}"
    by (auto simp: nifty_key_def dest!: side_rows_key)
  have cr: "set (map ?k ?ce) \<inter> set (map ?k ?rest) = {}"
    using fresh by (auto simp: nifty_key_def dest!: side_rows_key nifty_rows_strike)
  have pr: "set (map ?k ?pe) \<inter> set (map ?k ?rest) = {}"
    using fresh by (auto simp: nifty_key_def dest!: side_rows_key nifty_rows_strike)
  show ?case
    unfolding rows map_append distinct_append
    using rest cp cr pr side_rows_distinct [of ?k] by (simp add: Int_Un_distrib)
qed

lemma us_rows_distinct:
  assumes "distinct (map (\<lambda>r. py_get r ''strike'' (Num 0)) cs)"
    and "distinct (map (\<lambda>r. py_get r ''strike'' (Num 0)) ps)"
  shows "distinct (map us_key
           (map (us_row s e ''calls'') cs @ map (us_row s e ''puts'') ps))"
proof -
  let ?k = us_key
  have c: "map ?k (map (us_row s e ''calls'') cs)
             = map (\<lambda>x. (s, ''Call'', x, e)) (map (\<lambda>r. py_get r ''strike'' (Num 0)) cs)"
    by (simp add: us_row_def us_key_def)
  have p: "map ?k (map (us_row s e ''puts'') ps)
             = map (\<lambda>x. (s, ''Put'', x, e)) (map (\<lambda>r. py_get r ''strike'' (Num 0)) ps)"
    by (simp add: us_row_def us_key_def)
  have dc: "distinct (map ?k (map (us_row s e ''calls'') cs))"
    unfolding c using assms(1) by (simp only: distinct_map) (auto simp: inj_on_def)
  have dp: "distinct (map ?k (map (us_row s e ''puts'') ps))"
    unfolding p using assms(2) by (simp only: distinct_map) (auto simp: inj_on_def)
  have disj: "set (map ?k (map (us_row s e ''calls'') cs))
                \<inter> set (map ?k (map (us_row s e ''puts'') ps)) = {}"
    unfolding c p by auto
  show ?thesis
    unfolding map_append distinct_append using dc dp disj by blast
qed

text \<open>
  Claim C8, as stated, fails: the shapers never drop a duplicate. Two entries of the
  index payload at the same strike, each with a CE side, give two records with the same
  symbol, type and strike.
\<close>

theorem nifty_keys_repeat:
  "process_nifty_options_data (constant_clock 0)
       (Some \<lparr>records = Present (Present
          [\<lparr>strikePrice = Num 100, CE = Some [(''openInterest'', Num 5)], PE = None\<rparr>,
           \<lparr>strikePrice = Num 100, CE = Some [(''openInterest'', Num 9)], PE = None\<rparr>]),
          other_keys = []\<rparr>)
     = Some [nifty_row ''CE'' (Num 100) [(''openInterest'', Num 5)] 0,
             nifty_row ''CE'' (Num 100) [(''openInterest'', Num 9)] 0]
   \<and> nifty_row ''CE'' (Num 100) [(''openInterest'', Num 5)] 0
       \<noteq> nifty_row ''CE'' (Num 100) [(''openInterest'', Num 9)] 0
   \<and> nifty_key (nifty_row ''CE'' (Num 100) [(''openInterest'', Num 5)] 0)
       = nifty_key (nifty_row ''CE'' (Num 100) [(''openInterest'', Num 9)] 0)
   \<and> \<not> distinct (map nifty_key
          [nifty_row ''CE'' (Num 100) [(''openInterest'', Num 5)] 0,
           nifty_row ''CE'' (Num 100) [(''openInterest'', Num 9)] 0])"
  by (simp add: process_nifty_options_data_def nifty_payload_empty_def nifty_records_def
      side_rows_def nifty_row_def sort_values_def Let_def py_get_def constant_clock_def
      nifty_key_def)

text \<open>
  Claim C8, amended. The keys of the output are unique whenever the input repeats no
  strike: for the index path, when the entries of the \<open>data\<close> list have pairwise
  distinct strike prices, no two records share symbol, type and strike; for the equity
  path, when the strikes of the calls table are pairwise distinct and so are those of
  the puts table, no two records share symbol, type, strike and expiration date.
\<close>

theorem shaped_keys_unique:
  "(records d = Present (Present items) \<and> distinct (map strikePrice items) \<longrightarrow>
      (\<exists>out. process_nifty_options_data clk (Some d) = Some out
         \<and> distinct (map nifty_key out)))
   \<and> (symbol p = Some s \<and> expiration_date p = Some e \<and> calls p = Some cs \<and> puts p = Some ps
        \<and> distinct (map (\<lambda>r. py_get r ''strike'' (Num 0)) cs)
        \<and> distinct (map (\<lambda>r. py_get r ''strike'' (Num 0)) ps) \<longrightarrow>
      (\<exists>out. process_options_data (Some p) = Inr (Some out)
         \<and> distinct (map us_key out)))"
proof (intro conjI impI)
  assume a: "records d = Present (Present items) \<and> distinct (map strikePrice items)"
  then have "distinct (map nifty_key
               (sort_values (nifty_rows clk 0 items)))"
    by (simp only: distinct_map_sort_values nifty_rows_distinct)
  with process_nifty_options_data_eq [of d items clk] a
  show "\<exists>out. process_nifty_options_data clk (Some d) = Some out
         \<and> distinct (map nifty_key out)"
    by blast
next
  assume a: "symbol p = Some s \<and> expiration_date p = Some e \<and> calls p = Some cs
        \<and> puts p = Some ps
        \<and> distinct (map (\<lambda>r. py_get r ''strike'' (Num 0)) cs)
        \<and> distinct (map (\<lambda>r. py_get r ''strike'' (Num 0)) ps)"
  then have "distinct (map us_key
               (sort_values (map (us_row s e ''calls'') cs @ map (us_row s e ''puts'') ps)))"
    by (simp only: distinct_map_sort_values us_rows_distinct)
  with process_options_data_eq [of p s e cs ps] a
  show "\<exists>out. process_options_data (Some p) = Inr (Some out)
         \<and> distinct (map us_key out)"
    by blast
qed

theorem shaped_keys_unique_witness:
  "(records \<lparr>records = Present (Present
        [\<lparr>strikePrice = Num 100, CE = Some [(''openInterest'', Num 5)],
          PE = Some [(''openInterest'', Num 6)]\<rparr>,
         \<lparr>strikePrice = Num 150, CE = Some [(''openInterest'', Num 9)], PE = None\<rparr>]),
       other_keys = []\<rparr>
      = Present (Present
        [\<lparr>strikePrice = Num 100, CE = Some [(''openInterest'', Num 5)],
          PE = Some [(''openInterest'', Num 6)]\<rparr>,
         \<lparr>strikePrice = Num 150, CE = Some [(''openInterest'', Num 9)], PE = None\<rparr>])
    \<and> distinct (map strikePrice
        [\<lparr>strikePrice = Num 100, CE = Some [(''openInterest'', Num 5)],
          PE = Some [(''openInterest'', Num 6)]\<rparr>,
         \<lparr>strikePrice = Num 150, CE = Some [(''openInterest'', Num 9)], PE = None\<rparr>]))
   \<and> (\<exists>out. process_nifty_options_data (\<lambda>n. int n)
         (Some \<lparr>records = Present (Present
            [\<lparr>strikePrice = Num 100, CE = Some [(''openInterest'', Num 5)],
              PE = Some [(''openInterest'', Num 6)]\<rparr>,
             \<lparr>strikePrice = Num 150, CE = Some [(''openInterest'', Num 9)], PE = None\<rparr>]),
           other_keys = []\<rparr>) = Some out
        \<and> distinct (map nifty_key out))
   \<and> (distinct (map (\<lambda>r. py_get r ''strike'' (Num 0)) [[(''strike'', Num 150)], [(''volume'', Num 7)]])
        \<and> distinct (map (\<lambda>r. py_get r ''strike'' (Num 0)) [[(''strike'', Num 150)]]))
   \<and> (\<exists>out. process_options_data
         (Some \<lparr>symbol = Some ''SPY'', expiration_date = Some ''2024-01-19'',
                calls = Some [[(''strike'', Num 150)], [(''volume'', Num 7)]],
                puts = Some [[(''strike'', Num 150)]], timestamp = None\<rparr>) = Inr (Some out)
        \<and> distinct (map us_key out))"
  using shaped_keys_unique
    [of "\<lparr>records = Present (Present
        [\<lparr>strikePrice = Num 100, CE = Some [(''openInterest'', Num 5)],
          PE = Some [(''openInterest'', Num 6)]\<rparr>,
         \<lparr>strikePrice = Num 150, CE = Some [(''openInterest'', Num 9)], PE = None\<rparr>]),
       other_keys = []\<rparr>"
       "[\<lparr>strikePrice = Num 100, CE = Some [(''openInterest'', Num 5)],
          PE = Some [(''openInterest'', Num 6)]\<rparr>,
         \<lparr>strikePrice = Num 150, CE = Some [(''openInterest'', Num 9)], PE = None\<rparr>]"
       "\<lambda>n. int n"
       "\<lparr>symbol = Some ''SPY'', expiration_date = Some ''2024-01-19'',
                calls = Some [[(''strike'', Num 150)], [(''volume'', Num 7)]],
                puts = Some [[(''strike'', Num 150)]], timestamp = None\<rparr>"
       "''SPY''" "''2024-01-19''"
       "[[(''strike'', Num 150)], [(''volume'', Num 7)]]" "[[(''strike'', Num 150)]]"]
  by (simp add: py_get_def)

section \<open>Aggregation\<close>

lemma groupby_sum_keys:
  "map fst (groupby_sum key col df) = sort (remdups (List.map_filter key df))"
  by (simp add: groupby_sum_def comp_def)

lemma set_map_filter_keys:
  "set (List.map_filter key df) = {k. \<exists>r\<in>set df. key r = Some k}"
  by (induction df) (auto split: option.splits)

lemma groupby_sum_key_set:
  "fst ` set (groupby_sum key col df) = {k. \<exists>r\<in>set df. key r = Some k}"
proof -
  have "fst ` set (groupby_sum key col df) = set (map fst (groupby_sum key col df))"
    by simp
  also have "\<dots> = set (List.map_filter key df)"
    unfolding groupby_sum_keys by simp
  finally show ?thesis by (simp only: set_map_filter_keys)
qed

lemma map_of_groupby_sum:
  "map_of (groupby_sum key col df) k =
     (if \<exists>r\<in>set df. key r = Some k
      then Some (sum_list (map (\<lambda>r. cell_value (col r)) (filter (\<lambda>r. key r = Some k) df)))
      else None)"
proof -
  have "k \<in> set (sort (remdups (List.map_filter key df))) \<longleftrightarrow> (\<exists>r\<in>set df. key r = Some k)"
    by (simp add: set_map_filter_keys)
  then show ?thesis
    unfolding groupby_sum_def map_of_map_restrict
    by (simp add: restrict_map_def)
qed

lemma map_of_oi_summary:
  "map_of (oi_summary df) t =
     (if \<exists>r\<in>set df. Type r = t
      then Some (sum_list (map (\<lambda>r. cell_value (Open_Interest r)) (filter (\<lambda>r. Type r = t) df)))
      else None)"
  unfolding oi_summary_def map_of_groupby_sum by simp

lemma ratio_figure_eq:
  assumes "df \<noteq> []"
  shows "ratio_figure df =
    (if (\<exists>r\<in>set df. Type r = ''PE'') \<and> (\<exists>r\<in>set df. Type r = ''CE'')
        \<and> 0 < sum_list (map (\<lambda>r. cell_value (Open_Interest r)) (filter (\<lambda>r. Type r = ''CE'') df))
     then RatioBar (sum_list (map (\<lambda>r. cell_value (Open_Interest r)) (filter (\<lambda>r. Type r = ''PE'') df))
                    / sum_list (map (\<lambda>r. cell_value (Open_Interest r)) (filter (\<lambda>r. Type r = ''CE'') df)))
     else InsufficientData)"
  using assms unfolding ratio_figure_def Let_def map_of_oi_summary
  by (simp only: if_True) (simp split: if_splits)

lemma top_strikes_length: "length (top_strikes df) \<le> 20"
  by (simp add: top_strikes_def nlargest_def)

lemma top_strikes_subset:
  "set (top_strikes df) \<subseteq> {s. \<exists>r\<in>set df. Strike r = Num s}"
proof -
  let ?g = "groupby_sum (\<lambda>r. strike_group (Strike r)) Volume df"
  have "set (top_strikes df) \<subseteq> fst ` set (sort_key (\<lambda>kv. - snd kv) ?g)"
    unfolding top_strikes_def nlargest_def set_map
    by (rule image_mono) (rule set_take_subset)
  also have "\<dots> = fst ` set ?g" by simp
  also have "\<dots> = {k. \<exists>r\<in>set df. strike_group (Strike r) = Some k}"
    by (rule groupby_sum_key_set)
  also have "\<dots> = {s. \<exists>r\<in>set df. Strike r = Num s}"
  proof -
    have "strike_group c = Some k \<longleftrightarrow> c = Num k" for c k
      by (cases c) auto
    then show ?thesis by simp
  qed
  finally show ?thesis .
qed

lemma top_strikes_distinct: "distinct (top_strikes df)"
proof -
  let ?g = "groupby_sum (\<lambda>r. strike_group (Strike r)) Volume df"
  have "distinct (map fst ?g)"
    unfolding groupby_sum_keys by simp
  then have "distinct (map fst (sort_key (\<lambda>kv. - snd kv) ?g))"
    by (metis mset_eq_imp_distinct_iff mset_map mset_sort)
  then have "distinct (take 20 (map fst (sort_key (\<lambda>kv. - snd kv) ?g)))"
    by (rule distinct_take)
  then show ?thesis
    by (simp add: top_strikes_def nlargest_def take_map)
qed

lemma oi_summary_single_call:
  "oi_summary [nifty_row ''CE'' (Num 150)
                 [(''openInterest'', Num 500), (''totalTradedVolume'', Num 1000)] 0]
     = [(''CE'', 500)]"
  by (simp add: oi_summary_def groupby_sum_def nifty_row_def py_get_def)

text \<open>
  Claim C3, as stated, fails: the ratio is also left out when the table has no put
  record, although the call-side open interest is there and not zero. For a table of one
  call record with open interest 500 the call-side sum is 500 and the third figure shows
  no ratio.
\<close>

theorem put_call_ratio_missing_without_puts:
  "oi_summary [nifty_row ''CE'' (Num 150)
                 [(''openInterest'', Num 500), (''totalTradedVolume'', Num 1000)] 0]
     = [(''CE'', 500)]
   \<and> generate_nifty_plots
        (Some [nifty_row ''CE'' (Num 150)
                 [(''openInterest'', Num 500), (''totalTradedVolume'', Num 1000)] 0])
       = Some (OIPie [(''CE'', 500)],
               VolumeBars [nifty_row ''CE'' (Num 150)
                 [(''openInterest'', Num 500), (''totalTradedVolume'', Num 1000)] 0] [150],
               InsufficientData)"
proof -
  let ?df = "[nifty_row ''CE'' (Num 150)
                 [(''openInterest'', Num 500), (''totalTradedVolume'', Num 1000)] 0]"
  have a: "oi_summary ?df = [(''CE'', 500)]"
    by (rule oi_summary_single_call)
  have b: "oi_figure ?df = OIPie [(''CE'', 500)]"
    by (simp add: oi_figure_def a)
  have c: "ratio_figure ?df = InsufficientData"
    by (simp add: ratio_figure_def a)
  have d: "volume_figure ?df = VolumeBars ?df [150]"
    by (simp add: volume_figure_def plot_df_def top_strikes_def nlargest_def groupby_sum_def
        nifty_row_def py_get_def)
  show ?thesis
    by (simp add: generate_nifty_plots_def a b c d)
qed

text \<open>
  Claim C3, amended. No figure is built for an absent or empty table. For any other
  table the put-call ratio is shown exactly when the table has a put record and a call
  record and the call-side open-interest sum is positive; it is then the put-side sum
  divided by the call-side sum, and it is not negative when no open interest is negative.
  Otherwise the figure reports insufficient data.
\<close>

theorem put_call_ratio_rendering:
  "generate_nifty_plots None = None
   \<and> generate_nifty_plots (Some []) = None
   \<and> (df \<noteq> [] \<longrightarrow>
        generate_nifty_plots (Some df)
          = Some (oi_figure df, volume_figure df,
              if (\<exists>r\<in>set df. Type r = ''PE'') \<and> (\<exists>r\<in>set df. Type r = ''CE'')
                 \<and> 0 < sum_list (map (\<lambda>r. cell_value (Open_Interest r))
                                   (filter (\<lambda>r. Type r = ''CE'') df))
              then RatioBar
                     (sum_list (map (\<lambda>r. cell_value (Open_Interest r))
                                 (filter (\<lambda>r. Type r = ''PE'') df))
                      / sum_list (map (\<lambda>r. cell_value (Open_Interest r))
                                   (filter (\<lambda>r. Type r = ''CE'') df)))
              else InsufficientData))
   \<and> ((\<forall>r\<in>set df. 0 \<le> cell_value (Open_Interest r)) \<and> ratio_figure df = RatioBar x
        \<longrightarrow> 0 \<le> x)"
proof -
  let ?pe = "sum_list (map (\<lambda>r. cell_value (Open_Interest r)) (filter (\<lambda>r. Type r = ''PE'') df))"
  let ?ce = "sum_list (map (\<lambda>r. cell_value (Open_Interest r)) (filter (\<lambda>r. Type r = ''CE'') df))"
  have a: "generate_nifty_plots None = None" "generate_nifty_plots (Some []) = None"
    by (simp_all add: generate_nifty_plots_def)
  have b: "generate_nifty_plots (Some df)
          = Some (oi_figure df, volume_figure df,
              if (\<exists>r\<in>set df. Type r = ''PE'') \<and> (\<exists>r\<in>set df. Type r = ''CE'') \<and> 0 < ?ce
              then RatioBar (?pe / ?ce) else InsufficientData)"
    if ne: "df \<noteq> []"
  proof -
    have "generate_nifty_plots (Some df) = Some (oi_figure df, volume_figure df, ratio_figure df)"
      using ne by (simp add: generate_nifty_plots_def)
    then show ?thesis by (simp only: ratio_figure_eq [OF ne])
  qed
  have c: "0 \<le> x"
    if nn: "\<forall>r\<in>set df. 0 \<le> cell_value (Open_Interest r)" and r: "ratio_figure df = RatioBar x"
  proof -
    from r have ne: "df \<noteq> []" by (auto simp: ratio_figure_def)
    from r have x: "x = ?pe / ?ce" and pos: "0 < ?ce"
      unfolding ratio_figure_eq [OF ne] by (auto split: if_splits)
    have "0 \<le> ?pe"
      by (rule sum_list_nonneg) (use nn in auto)
    with pos show ?thesis unfolding x by simp
  qed
  from a b c show ?thesis by blast
qed

theorem put_call_ratio_rendering_witness:
  "[nifty_row ''CE'' (Num 150) [(''openInterest'', Num 500), (''totalTradedVolume'', Num 1000)] 0,
    nifty_row ''PE'' (Num 150) [(''openInterest'', Num 300), (''totalTradedVolume'', Num 800)] 1] \<noteq> []
   \<and> 0 \<le> cell_value (Open_Interest (nifty_row ''CE'' (Num 150) [(''openInterest'', Num 500), (''totalTradedVolume'', Num 1000)] 0))
   \<and> 0 \<le> cell_value (Open_Interest (nifty_row ''PE'' (Num 150) [(''openInterest'', Num 300), (''totalTradedVolume'', Num 800)] 1))
   \<and> ratio_figure [nifty_row ''CE'' (Num 150) [(''openInterest'', Num 500), (''totalTradedVolume'', Num 1000)] 0,
                    nifty_row ''PE'' (Num 150) [(''openInterest'', Num 300), (''totalTradedVolume'', Num 800)] 1]
       = RatioBar (3 / 5)
   \<and> (0::rat) \<le> 3 / 5"
proof -
  have nn: "\<forall>r\<in>set [nifty_row ''CE'' (Num 150) [(''openInterest'', Num 500), (''totalTradedVolume'', Num 1000)] 0,
                 nifty_row ''PE'' (Num 150) [(''openInterest'', Num 300), (''totalTradedVolume'', Num 800)] 1].
         0 \<le> cell_value (Open_Interest r)"
    by (simp add: nifty_row_def py_get_def)
  have "generate_nifty_plots (Some [nifty_row ''CE'' (Num 150) [(''openInterest'', Num 500), (''totalTradedVolume'', Num 1000)] 0,
          nifty_row ''PE'' (Num 150) [(''openInterest'', Num 300), (''totalTradedVolume'', Num 800)] 1])
        = Some (oi_figure [nifty_row ''CE'' (Num 150) [(''openInterest'', Num 500), (''totalTradedVolume'', Num 1000)] 0,
                  nifty_row ''PE'' (Num 150) [(''openInterest'', Num 300), (''totalTradedVolume'', Num 800)] 1],
                volume_figure [nifty_row ''CE'' (Num 150) [(''openInterest'', Num 500), (''totalTradedVolume'', Num 1000)] 0,
                  nifty_row ''PE'' (Num 150) [(''openInterest'', Num 300), (''totalTradedVolume'', Num 800)] 1],
                RatioBar (3 / 5))"
    using put_call_ratio_rendering
      [of "[nifty_row ''CE'' (Num 150) [(''openInterest'', Num 500), (''totalTradedVolume'', Num 1000)] 0,
            nifty_row ''PE'' (Num 150) [(''openInterest'', Num 300), (''totalTradedVolume'', Num 800)] 1]" "3 / 5"]
    by (simp add: nifty_row_def py_get_def)
  then have r: "ratio_figure [nifty_row ''CE'' (Num 150) [(''openInterest'', Num 500), (''totalTradedVolume'', Num 1000)] 0,
                    nifty_row ''PE'' (Num 150) [(''openInterest'', Num 300), (''totalTradedVolume'', Num 800)] 1]
       = RatioBar (3 / 5)"
    by (simp add: generate_nifty_plots_def)
  from put_call_ratio_rendering
      [of "[nifty_row ''CE'' (Num 150) [(''openInterest'', Num 500), (''totalTradedVolume'', Num 1000)] 0,
            nifty_row ''PE'' (Num 150) [(''openInterest'', Num 300), (''totalTradedVolume'', Num 800)] 1]" "3 / 5"] nn r
  have "(0::rat) \<le> 3 / 5" by blast
  with nn r show ?thesis by simp
qed

text \<open>
  Claim C4. The strikes selected for the volume chart (group by strike, sum the volume,
  keep the 20 largest sums), which both plot builders use, are at most 20, are pairwise
  different, and each is the strike of some record of the table.
\<close>

theorem top_strikes_bounded:
  "length (top_strikes df) \<le> 20
   \<and> distinct (top_strikes df)
   \<and> (\<forall>s\<in>set (top_strikes df). \<exists>r\<in>set df. Strike r = Num s)"
  using top_strikes_length [of df] top_strikes_distinct [of df] top_strikes_subset [of df]
  by blast

theorem top_strikes_bounded_witness:
  "top_strikes [nifty_row ''CE'' (Num 150) [(''totalTradedVolume'', Num 1000)] 0,
                nifty_row ''PE'' (Num 150) [(''totalTradedVolume'', Num 800)] 1,
                nifty_row ''CE'' (Num 200) [(''totalTradedVolume'', Num 2500)] 2]
     = [200, 150]
   \<and> length [200, 150 :: rat] \<le> 20
   \<and> distinct [200, 150 :: rat]
   \<and> Strike (nifty_row ''CE'' (Num 200) [(''totalTradedVolume'', Num 2500)] 2) = Num 200
   \<and> Strike (nifty_row ''CE'' (Num 150) [(''totalTradedVolume'', Num 1000)] 0) = Num 150"
proof -
  have e: "top_strikes [nifty_row ''CE'' (Num 150) [(''totalTradedVolume'', Num 1000)] 0,
                nifty_row ''PE'' (Num 150) [(''totalTradedVolume'', Num 800)] 1,
                nifty_row ''CE'' (Num 200) [(''totalTradedVolume'', Num 2500)] 2]
     = [200, 150]"
    by (simp add: top_strikes_def nlargest_def groupby_sum_def nifty_row_def py_get_def)
  from top_strikes_bounded
      [of "[nifty_row ''CE'' (Num 150) [(''totalTradedVolume'', Num 1000)] 0,
            nifty_row ''PE'' (Num 150) [(''totalTradedVolume'', Num 800)] 1,
            nifty_row ''CE'' (Num 200) [(''totalTradedVolume'', Num 2500)] 2]"]
  show ?thesis unfolding e by (simp add: nifty_row_def)
qed

text \<open>
  Claim C9. For a call record at strike 150 with volume 1000 and open interest 500 and
  a put record at strike 150 with volume 800 and open interest 300, whatever their
  other columns, the open-interest summary is CE 500, PE 300 and the put-call ratio
  shown is 0.6.
\<close>

theorem summary_example:
  "oi_summary
     [\<lparr>Symbol = sy1, Type = ''CE'', Strike = Num 150, Last_Price = lp1, Bid = b1, Ask = a1,
       Volume = Num 1000, Open_Interest = Num 500, Change_in_OI = c1, IV = iv1,
       Underlying = u1, Timestamp = t1\<rparr>,
      \<lparr>Symbol = sy2, Type = ''PE'', Strike = Num 150, Last_Price = lp2, Bid = b2, Ask = a2,
       Volume = Num 800, Open_Interest = Num 300, Change_in_OI = c2, IV = iv2,
       Underlying = u2, Timestamp = t2\<rparr>]
     = [(''CE'', 500), (''PE'', 300)]
   \<and> ratio_figure
     [\<lparr>Symbol = sy1, Type = ''CE'', Strike = Num 150, Last_Price = lp1, Bid = b1, Ask = a1,
       Volume = Num 1000, Open_Interest = Num 500, Change_in_OI = c1, IV = iv1,
       Underlying = u1, Timestamp = t1\<rparr>,
      \<lparr>Symbol = sy2, Type = ''PE'', Strike = Num 150, Last_Price = lp2, Bid = b2, Ask = a2,
       Volume = Num 800, Open_Interest = Num 300, Change_in_OI = c2, IV = iv2,
       Underlying = u2, Timestamp = t2\<rparr>]
     = RatioBar (6 / 10)
   \<and> (\<exists>f2. generate_nifty_plots (Some
     [\<lparr>Symbol = sy1, Type = ''CE'', Strike = Num 150, Last_Price = lp1, Bid = b1, Ask = a1,
       Volume = Num 1000, Open_Interest = Num 500, Change_in_OI = c1, IV = iv1,
       Underlying = u1, Timestamp = t1\<rparr>,
      \<lparr>Symbol = sy2, Type = ''PE'', Strike = Num 150, Last_Price = lp2, Bid = b2, Ask = a2,
       Volume = Num 800, Open_Interest = Num 300, Change_in_OI = c2, IV = iv2,
       Underlying = u2, Timestamp = t2\<rparr>])
     = Some (OIPie [(''CE'', 500), (''PE'', 300)], f2, RatioBar (6 / 10)))"
proof -
  let ?df = "[\<lparr>Symbol = sy1, Type = ''CE'', Strike = Num 150, Last_Price = lp1, Bid = b1, Ask = a1,
       Volume = Num 1000, Open_Interest = Num 500, Change_in_OI = c1, IV = iv1,
       Underlying = u1, Timestamp = t1\<rparr>,
      \<lparr>Symbol = sy2, Type = ''PE'', Strike = Num 150, Last_Price = lp2, Bid = b2, Ask = a2,
       Volume = Num 800, Open_Interest = Num 300, Change_in_OI = c2, IV = iv2,
       Underlying = u2, Timestamp = t2\<rparr>]"
  have a: "oi_summary ?df = [(''CE'', 500), (''PE'', 300)]"
    by (simp add: oi_summary_def groupby_sum_def)
  have b: "ratio_figure ?df = RatioBar (6 / 10)"
    by (simp add: ratio_figure_def a)
  have c: "oi_figure ?df = OIPie [(''CE'', 500), (''PE'', 300)]"
    by (simp add: oi_figure_def a)
  have d: "generate_nifty_plots (Some ?df)
             = Some (OIPie [(''CE'', 500), (''PE'', 300)], volume_figure ?df, RatioBar (6 / 10))"
    by (simp add: generate_nifty_plots_def b c)
  from a b d show ?thesis by blast
qed

section \<open>Fetching the nearest expiration\<close>





end
